theory Spec2Isabelle
  imports Main
begin

section \<open>Python values\<close>

text \<open>
  The values the program handles are the ones \<^verbatim>\<open>response.json()\<close> produces and the
  keyword arguments of \<^verbatim>\<open>get_options_chain_snapshot\<close>: \<^verbatim>\<open>None\<close>, booleans, unbounded
  integers, floats, strings, lists and dictionaries with string keys.

  \<^item> A float is only ever printed and tested for truth here, so it is held as the text
    Python's \<^verbatim>\<open>repr\<close> gives for it (\<^verbatim>\<open>0.5\<close>, \<^verbatim>\<open>-0.03\<close>, \<^verbatim>\<open>1e-07\<close>).
  \<^item> A dictionary is an association list in insertion order; a Python dictionary has
    no repeated key, and lookup reads the first binding.
  \<^item> Text is held in UTF-8: a character of ASCII is one \<^typ>\<open>char\<close>, any other
    character is a lead \<^typ>\<open>char\<close> followed by continuation \<^typ>\<open>char\<close>s, all of them
    with the top bit set (a lone surrogate, which a JSON text can hold, in its three
    \<^typ>\<open>char\<close> form).
\<close>

datatype pyval =
    PNone
  | PBool bool
  | PInt int
  | PFloat string
  | PStr string
  | PList "pyval list"
  | PDict "(string \<times> pyval) list"

text \<open>
  Two operations of the interpreter depend on what a character is: \<^verbatim>\<open>str.upper\<close> and
  \<^verbatim>\<open>repr\<close> of a string. For text that is all ASCII they are written out below. For
  text with other characters they consult the Unicode character database of the
  interpreter, which is no part of the program: it is the parameter \<open>U\<close> of the model,
  \<open>str_upper U s\<close> for \<^verbatim>\<open>s.upper()\<close> and \<open>str_repr U s\<close> for \<^verbatim>\<open>repr(s)\<close>.
\<close>

record interpreter =
  str_upper :: "string \<Rightarrow> string"
  str_repr :: "string \<Rightarrow> string"

definition ascii :: "string \<Rightarrow> bool" where
  "ascii s = list_all (\<lambda>c. \<not> digit7 c) s"

text \<open>A continuation \<^typ>\<open>char\<close> of UTF-8 has the bits 10 on top.\<close>

definition continuation :: "char \<Rightarrow> bool" where
  "continuation c = (digit7 c \<and> \<not> digit6 c)"

text \<open>The characters of a text, each with its continuation \<^typ>\<open>char\<close>s.\<close>

function characters :: "string \<Rightarrow> string list" where
  "characters [] = []"
| "characters (c # cs) = (c # takeWhile continuation cs) # characters (dropWhile continuation cs)"
  by pat_completeness auto
termination
  by (relation "measure length") (auto simp: length_dropWhile_le le_imp_less_Suc)

fun type_name :: "pyval \<Rightarrow> string" where
  "type_name PNone = ''NoneType''"
| "type_name (PBool _) = ''bool''"
| "type_name (PInt _) = ''int''"
| "type_name (PFloat _) = ''float''"
| "type_name (PStr _) = ''str''"
| "type_name (PList _) = ''list''"
| "type_name (PDict _) = ''dict''"

text \<open>Truth value of an object, as \<^verbatim>\<open>if last_quote:\<close> tests it.\<close>

fun truthy :: "pyval \<Rightarrow> bool" where
  "truthy PNone = False"
| "truthy (PBool b) = b"
| "truthy (PInt i) = (i \<noteq> 0)"
| "truthy (PFloat r) = (r \<noteq> ''0.0'' \<and> r \<noteq> ''-0.0'')"
| "truthy (PStr s) = (s \<noteq> [])"
| "truthy (PList xs) = (xs \<noteq> [])"
| "truthy (PDict kvs) = (kvs \<noteq> [])"

subsection \<open>\<^verbatim>\<open>str\<close> and \<^verbatim>\<open>repr\<close>\<close>

fun str_nat :: "nat \<Rightarrow> string" where
  "str_nat n =
     (if n < 10 then [''0123456789'' ! n]
      else str_nat (n div 10) @ [''0123456789'' ! (n mod 10)])"

declare str_nat.simps [simp del]

definition str_int :: "int \<Rightarrow> string" where
  "str_int i = (if i < 0 then ''-'' @ str_nat (nat (- i)) else str_nat (nat i))"

definition hex2 :: "char \<Rightarrow> string" where
  "hex2 c =
     (let n = (of_char c :: nat)
      in [''0123456789abcdef'' ! (n div 16), ''0123456789abcdef'' ! (n mod 16)])"

text \<open>
  \<^verbatim>\<open>repr\<close> of a string of ASCII: the quote is the apostrophe (0x27), unless the text has an
  apostrophe and no double quote (0x22); the quote and the backslash (0x5C) are
  escaped with a backslash; tab, line feed and carriage return are written as a
  backslash and the letter t, n or r; every other control character as a backslash,
  the letter x and two hexadecimal digits.
\<close>

definition repr_char :: "char \<Rightarrow> char \<Rightarrow> string" where
  "repr_char q c =
     (if c = q \<or> c = CHR 0x5C then [CHR 0x5C, c]
      else if c = CHR 0x09 then [CHR 0x5C, CHR ''t'']
      else if c = CHR 0x0A then [CHR 0x5C, CHR ''n'']
      else if c = CHR 0x0D then [CHR 0x5C, CHR ''r'']
      else if (of_char c :: nat) < 32 \<or> c = CHR 0x7F then [CHR 0x5C, CHR ''x''] @ hex2 c
      else [c])"

definition repr_str :: "interpreter \<Rightarrow> string \<Rightarrow> string" where
  "repr_str U s =
     (if ascii s then
        (let q = (if CHR 0x27 \<in> set s \<and> CHR 0x22 \<notin> set s then CHR 0x22 else CHR 0x27)
         in [q] @ concat (map (repr_char q) s) @ [q])
      else str_repr U s)"

fun join :: "string \<Rightarrow> string list \<Rightarrow> string" where
  "join sep [] = []"
| "join sep [x] = x"
| "join sep (x # y # ys) = x @ sep @ join sep (y # ys)"

fun py_repr :: "interpreter \<Rightarrow> pyval \<Rightarrow> string" where
  "py_repr U PNone = ''None''"
| "py_repr U (PBool b) = (if b then ''True'' else ''False'')"
| "py_repr U (PInt i) = str_int i"
| "py_repr U (PFloat r) = r"
| "py_repr U (PStr s) = repr_str U s"
| "py_repr U (PList xs) = ''['' @ join '', '' (map (py_repr U) xs) @ '']''"
| "py_repr U (PDict kvs) =
     ''{'' @ join '', '' (map (\<lambda>kv. repr_str U (fst kv) @ '': '' @ py_repr U (snd kv)) kvs)
     @ ''}''"

text \<open>What an f-string puts for \<^verbatim>\<open>{v}\<close>: the string itself, \<^verbatim>\<open>repr\<close> for the rest.\<close>

fun py_str :: "interpreter \<Rightarrow> pyval \<Rightarrow> string" where
  "py_str U (PStr s) = s"
| "py_str U v = py_repr U v"

subsection \<open>\<^verbatim>\<open>str.upper\<close>\<close>

text \<open>Of ASCII text the letters a to z are raised, the other characters kept.\<close>

definition upper_char :: "char \<Rightarrow> char" where
  "upper_char c =
     (case map_of (zip ''abcdefghijklmnopqrstuvwxyz'' ''ABCDEFGHIJKLMNOPQRSTUVWXYZ'') c of
        None \<Rightarrow> c
      | Some u \<Rightarrow> u)"

definition upper :: "interpreter \<Rightarrow> string \<Rightarrow> string" where
  "upper U s = (if ascii s then map upper_char s else str_upper U s)"

section \<open>The HTTP transport and the exceptions\<close>

text \<open>
  A \<^verbatim>\<open>requests.Response\<close>, as far as the program reads it: the status code, the
  reason phrase and final URL (they make the text of the \<^verbatim>\<open>HTTPError\<close>), the body
  text, and what \<^verbatim>\<open>.json()\<close> gives: the parsed document, or the text of the decode
  error it raises.
\<close>

record response =
  status_code :: int
  reason :: string
  url :: string
  text_body :: string
  json :: "string + pyval"

datatype py_error =
    AttributeError string string
  | TypeError string
  | HTTPError string response
  | OtherError string

text \<open>\<^verbatim>\<open>str(e)\<close>, which the driver prints.\<close>

fun str_error :: "py_error \<Rightarrow> string" where
  "str_error (AttributeError ty attr) =
     [CHR 0x27] @ ty @ [CHR 0x27] @ '' object has no attribute '' @ [CHR 0x27] @ attr @ [CHR 0x27]"
| "str_error (TypeError msg) = msg"
| "str_error (HTTPError msg r) = msg"
| "str_error (OtherError msg) = msg"

text \<open>
  \<^verbatim>\<open>Response.raise_for_status\<close> of the requests library: a client error for a status
  in 400..499, a server error for 500..599, nothing otherwise.
\<close>

definition raise_for_status :: "response \<Rightarrow> py_error option" where
  "raise_for_status r =
     (if 400 \<le> status_code r \<and> status_code r < 500 then
        Some (HTTPError (str_int (status_code r) @ '' Client Error: '' @ reason r
                          @ '' for url: '' @ url r) r)
      else if 500 \<le> status_code r \<and> status_code r < 600 then
        Some (HTTPError (str_int (status_code r) @ '' Server Error: '' @ reason r
                          @ '' for url: '' @ url r) r)
      else None)"

section \<open>Dictionaries and attribute access\<close>

text \<open>\<^verbatim>\<open>d[k] = v\<close>: an existing key keeps its place, a new key goes last.\<close>

fun dict_set :: "string \<Rightarrow> pyval \<Rightarrow> (string \<times> pyval) list \<Rightarrow> (string \<times> pyval) list" where
  "dict_set k v [] = [(k, v)]"
| "dict_set k v ((k', v') # d) = (if k' = k then (k, v) # d else (k', v') # dict_set k v d)"

text \<open>\<^verbatim>\<open>d.update(other)\<close> stores the items of \<^verbatim>\<open>other\<close> in their order.\<close>

fun dict_update :: "(string \<times> pyval) list \<Rightarrow> (string \<times> pyval) list \<Rightarrow> (string \<times> pyval) list" where
  "dict_update d [] = d"
| "dict_update d ((k, v) # other) = dict_update (dict_set k v d) other"

text \<open>\<^verbatim>\<open>x.get(k, default)\<close>: only a dictionary has the method.\<close>

fun py_get :: "pyval \<Rightarrow> string \<Rightarrow> pyval \<Rightarrow> py_error + pyval" where
  "py_get (PDict d) k dflt = Inr (case map_of d k of None \<Rightarrow> dflt | Some v \<Rightarrow> v)"
| "py_get x k dflt = Inl (AttributeError (type_name x) ''get'')"

text \<open>\<^verbatim>\<open>x.upper()\<close>: only a string has the method.\<close>

fun py_upper :: "interpreter \<Rightarrow> pyval \<Rightarrow> py_error + pyval" where
  "py_upper U (PStr s) = Inr (PStr (upper U s))"
| "py_upper U x = Inl (AttributeError (type_name x) ''upper'')"

fun py_len :: "pyval \<Rightarrow> py_error + pyval" where
  "py_len (PList xs) = Inr (PInt (int (length xs)))"
| "py_len (PDict d) = Inr (PInt (int (length d)))"
| "py_len (PStr s) = Inr (PInt (int (length (characters s))))"
| "py_len x =
     Inl (TypeError (''object of type '' @ [CHR 0x27] @ type_name x @ [CHR 0x27] @ '' has no len()''))"

text \<open>
  What a \<^verbatim>\<open>for\<close> loop runs over: the items of a list, the keys of a dictionary, the
  characters of a string.
\<close>

fun py_iter :: "pyval \<Rightarrow> py_error + pyval list" where
  "py_iter (PList xs) = Inr xs"
| "py_iter (PDict d) = Inr (map (\<lambda>kv. PStr (fst kv)) d)"
| "py_iter (PStr s) = Inr (map PStr (characters s))"
| "py_iter x =
     Inl (TypeError ([CHR 0x27] @ type_name x @ [CHR 0x27] @ '' object is not iterable''))"

section \<open>The snapshot client\<close>

text \<open>
  The two module globals, read from the environment: \<^verbatim>\<open>os.getenv\<close> gives \<^verbatim>\<open>None\<close>
  for a variable that is not set.
\<close>

record config =
  API_KEY :: "string option"
  BASE_URL :: "string option"

fun env_val :: "string option \<Rightarrow> pyval" where
  "env_val None = PNone"
| "env_val (Some s) = PStr s"

text \<open>What an f-string puts for such a global: the string itself, or \<^verbatim>\<open>None\<close>.\<close>

fun env_str :: "string option \<Rightarrow> string" where
  "env_str None = ''None''"
| "env_str (Some s) = s"

text \<open>A call of \<^verbatim>\<open>requests.get(url, params=params)\<close>.\<close>

datatype http_call = GET (call_url: string) (call_params: "(string \<times> pyval) list")

text \<open>
  \<^verbatim>\<open>get_options_chain_snapshot(underlying_ticker, **kwargs)\<close>. The network is the
  parameter \<open>requests_get\<close>: it answers a call with a response, or with the text of the
  exception the transport raises (no connection, a timeout). The result is the list of
  calls made and the value returned or the exception raised.
\<close>

definition get_options_chain_snapshot ::
  "config \<Rightarrow> (http_call \<Rightarrow> string + response) \<Rightarrow> string \<Rightarrow> (string \<times> pyval) list
     \<Rightarrow> http_call list \<times> (py_error + pyval)" where
  "get_options_chain_snapshot cfg requests_get underlying_ticker kwargs =
     (let url = env_str (BASE_URL cfg) @ ''/snapshot/options/'' @ underlying_ticker;
          params = dict_update [(''apiKey'', env_val (API_KEY cfg))] kwargs
      in case requests_get (GET url params) of
           Inl msg \<Rightarrow> ([GET url params], Inl (OtherError msg))
         | Inr response \<Rightarrow>
             (case raise_for_status response of
                Some e \<Rightarrow> ([GET url params], Inl e)
              | None \<Rightarrow>
                  (case json response of
                     Inl msg \<Rightarrow> ([GET url params], Inl (OtherError msg))
                   | Inr doc \<Rightarrow> ([GET url params], Inr doc))))"

section \<open>The renderer\<close>

text \<open>
  Standard output is the list of the texts printed, one for each call of \<^verbatim>\<open>print\<close>
  (which ends each with a line feed). The argument of a \<^verbatim>\<open>print\<close> is evaluated
  before anything is written, so a print statement is either the text it writes or
  the exception its argument raises.

  An f-string is its parts from left to right: literal text, and expressions that
  give a value or raise.
\<close>

datatype part = Lit string | Val "py_error + pyval"

fun fstring :: "interpreter \<Rightarrow> part list \<Rightarrow> py_error + string" where
  "fstring U [] = Inr []"
| "fstring U (Lit s # ps) = (case fstring U ps of Inl e \<Rightarrow> Inl e | Inr t \<Rightarrow> Inr (s @ t))"
| "fstring U (Val (Inl e) # ps) = Inl e"
| "fstring U (Val (Inr v) # ps) =
     (case fstring U ps of Inl e \<Rightarrow> Inl e | Inr t \<Rightarrow> Inr (py_str U v @ t))"

text \<open>A method call on the result of an expression.\<close>

definition py_bind :: "py_error + 'a \<Rightarrow> ('a \<Rightarrow> py_error + 'b) \<Rightarrow> py_error + 'b" where
  "py_bind r f = (case r of Inl e \<Rightarrow> Inl e | Inr v \<Rightarrow> f v)"

text \<open>
  Print statements in sequence: the texts written, and the exception that stopped
  them, if one did.
\<close>

fun run_prints :: "(py_error + string) list \<Rightarrow> string list \<times> py_error option" where
  "run_prints [] = ([], None)"
| "run_prints (Inl e # rest) = ([], Some e)"
| "run_prints (Inr s # rest) = (s # fst (run_prints rest), snd (run_prints rest))"

text \<open>An assignment \<^verbatim>\<open>x = expr\<close> followed by the statements that use \<open>x\<close>.\<close>

definition bind_out ::
  "py_error + 'a \<Rightarrow> ('a \<Rightarrow> string list \<times> py_error option) \<Rightarrow> string list \<times> py_error option" where
  "bind_out r f = (case r of Inl e \<Rightarrow> ([], Some e) | Inr v \<Rightarrow> f v)"

text \<open>Two blocks of statements one after the other.\<close>

definition seq_out ::
  "string list \<times> py_error option \<Rightarrow> string list \<times> py_error option
     \<Rightarrow> string list \<times> py_error option" where
  "seq_out a b = (case snd a of Some e \<Rightarrow> a | None \<Rightarrow> (fst a @ fst b, snd b))"

text \<open>The print statements of one pass of the loop, lines 49 to 70.\<close>

definition option_prints ::
  "interpreter \<Rightarrow> pyval \<Rightarrow> pyval \<Rightarrow> pyval \<Rightarrow> pyval \<Rightarrow> pyval
     \<Rightarrow> (py_error + string) list" where
  "option_prints U option details greeks last_quote last_trade =
     [fstring U [Lit ''Contract: '', Val (py_get details ''ticker'' (PStr ''N/A''))],
      fstring U [Lit ''  Type: '',
               Val (py_bind (py_get details ''contract_type'' (PStr ''N/A'')) (py_upper U))],
      fstring U [Lit ''  Strike: $'', Val (py_get details ''strike_price'' (PStr ''N/A''))],
      fstring U [Lit ''  Expiration: '', Val (py_get details ''expiration_date'' (PStr ''N/A''))],
      fstring U [Lit ''  Exercise Style: '', Val (py_get details ''exercise_style'' (PStr ''N/A''))],
      fstring U [Lit ''  Greeks:''],
      fstring U [Lit ''    Delta: '', Val (py_get greeks ''delta'' (PStr ''N/A''))],
      fstring U [Lit ''    Gamma: '', Val (py_get greeks ''gamma'' (PStr ''N/A''))],
      fstring U [Lit ''    Theta: '', Val (py_get greeks ''theta'' (PStr ''N/A''))],
      fstring U [Lit ''    Vega:  '', Val (py_get greeks ''vega'' (PStr ''N/A''))],
      fstring U [Lit ''  Implied Volatility: '',
               Val (py_get option ''implied_volatility'' (PStr ''N/A''))],
      fstring U [Lit ''  Open Interest: '', Val (py_get option ''open_interest'' (PStr ''N/A''))]]
     @ (if truthy last_quote then
          [fstring U [Lit ''  Last Quote: Bid $'', Val (py_get last_quote ''bid'' (PStr ''N/A'')),
                    Lit '' / Ask $'', Val (py_get last_quote ''ask'' (PStr ''N/A''))]]
        else [])
     @ (if truthy last_trade then
          [fstring U [Lit ''  Last Trade: $'', Val (py_get last_trade ''price'' (PStr ''N/A'')),
                    Lit '' ('', Val (py_get last_trade ''size'' (PStr ''N/A'')),
                    Lit '' contracts)'']]
        else [])
     @ [Inr []]"

text \<open>One pass of the loop over \<^verbatim>\<open>results\<close>, lines 44 to 70.\<close>

definition print_option :: "interpreter \<Rightarrow> pyval \<Rightarrow> string list \<times> py_error option" where
  "print_option U option =
     bind_out (py_get option ''details'' (PDict [])) (\<lambda>details.
     bind_out (py_get option ''greeks'' (PDict [])) (\<lambda>greeks.
     bind_out (py_get option ''last_quote'' (PDict [])) (\<lambda>last_quote.
     bind_out (py_get option ''last_trade'' (PDict [])) (\<lambda>last_trade.
       run_prints (option_prints U option details greeks last_quote last_trade)))))"

text \<open>The loop \<^verbatim>\<open>for option in results\<close>: an exception ends it.\<close>

fun print_results :: "interpreter \<Rightarrow> pyval list \<Rightarrow> string list \<times> py_error option" where
  "print_results U [] = ([], None)"
| "print_results U (option # rest) = seq_out (print_option U option) (print_results U rest)"

text \<open>\<^verbatim>\<open>print_options_chain(data)\<close>: what it writes, and the exception it raises, if any.\<close>

definition print_options_chain ::
  "interpreter \<Rightarrow> pyval \<Rightarrow> string list \<times> py_error option" where
  "print_options_chain U data =
     seq_out
       (run_prints
          [fstring U [Lit ''Status: '', Val (py_get data ''status'' PNone)],
           fstring U [Lit ''Request ID: '', Val (py_get data ''request_id'' PNone)],
           Inr (replicate 80 CHR ''-'')])
       (bind_out (py_get data ''results'' (PList [])) (\<lambda>results.
          seq_out
            (run_prints
               [fstring U [Lit ''Total contracts returned: '', Val (py_len results),
                         Lit [CHR 0x0A]]])
            (bind_out (py_iter results) (print_results U))))"

section \<open>The driver\<close>

text \<open>The two \<^verbatim>\<open>except\<close> clauses of the driver.\<close>

fun except_clauses :: "py_error \<Rightarrow> string list" where
  "except_clauses (HTTPError msg r) =
     [''HTTP Error: '' @ str_error (HTTPError msg r), ''Response: '' @ text_body r]"
| "except_clauses e = [''Error: '' @ str_error e]"

text \<open>
  The \<^verbatim>\<open>__main__\<close> block: the calls made and the texts printed. \<open>json_dumps\<close> stands
  for \<^verbatim>\<open>json.dumps(data, indent=2)\<close> of the standard library.
\<close>

definition main ::
  "interpreter \<Rightarrow> config \<Rightarrow> (http_call \<Rightarrow> string + response) \<Rightarrow> (pyval \<Rightarrow> string)
     \<Rightarrow> http_call list \<times> string list" where
  "main U cfg requests_get json_dumps =
     (let ticker = ''AAPL'';
          banner = [''Fetching options chain snapshot for '' @ ticker @ ''...'',
                    replicate 80 CHR ''=''];
          fetched = get_options_chain_snapshot cfg requests_get ticker [(''limit'', PInt 10)]
      in (fst fetched,
          banner @
          (case snd fetched of
             Inl e \<Rightarrow> except_clauses e
           | Inr data \<Rightarrow>
               (case print_options_chain U data of
                  (out, Some e) \<Rightarrow> out @ except_clauses e
                | (out, None) \<Rightarrow>
                    out @ [replicate 80 CHR ''='', ''Raw JSON Response:'',
                           replicate 80 CHR ''='', json_dumps data]))))"

section \<open>The renderer in the process\<close>









section \<open>Notions the properties are stated with\<close>

text \<open>A printed text that begins with a given label, and how many of them there are.\<close>

fun starts_with :: "string \<Rightarrow> string \<Rightarrow> bool" where
  "starts_with [] s = True"
| "starts_with (p # ps) [] = False"
| "starts_with (p # ps) (c # cs) = (p = c \<and> starts_with ps cs)"

definition count_lines :: "string \<Rightarrow> string list \<Rightarrow> nat" where
  "count_lines label out = length (filter (starts_with label) out)"

text \<open>
  The text the print calls put on standard output, each text with its line feed, and
  the lines of that text: the pieces between line feeds (after the last line feed
  there is nothing).
\<close>

definition stdout_text :: "string list \<Rightarrow> string" where
  "stdout_text out = concat (map (\<lambda>t. t @ [CHR 0x0A]) out)"

fun split_lines :: "string \<Rightarrow> string list" where
  "split_lines [] = [[]]"
| "split_lines (c # cs) =
     (if c = CHR 0x0A then [] # split_lines cs
      else (case split_lines cs of [] \<Rightarrow> [[c]] | l # ls \<Rightarrow> (c # l) # ls))"


definition one_line :: "string \<Rightarrow> bool" where
  "one_line t = (CHR 0x0A \<notin> set t)"



text \<open>
  The closed examples below are on ASCII text, for which the tables of the interpreter
  are not consulted: any tables give the same results there. They are run with tables
  that give a text back as it is.
\<close>

definition no_tables :: interpreter where
  "no_tables = \<lparr>str_upper = (\<lambda>s. s), str_repr = (\<lambda>s. s)\<rparr>"

fun is_dict :: "pyval \<Rightarrow> bool" where
  "is_dict (PDict d) = True"
| "is_dict v = False"

fun is_str :: "pyval \<Rightarrow> bool" where
  "is_str (PStr s) = True"
| "is_str v = False"


text \<open>
  The contracts the loop body runs through without an exception: a mapping; its
  \<^verbatim>\<open>details\<close> absent or a mapping whose \<^verbatim>\<open>contract_type\<close> is absent or a string; its
  \<^verbatim>\<open>greeks\<close> absent or a mapping; its \<^verbatim>\<open>last_quote\<close> and \<^verbatim>\<open>last_trade\<close> each absent, a
  mapping, or a value that tests false (\<^verbatim>\<open>null\<close>, zero, an empty string or list).
\<close>

definition well_typed_contract :: "pyval \<Rightarrow> bool" where
  "well_typed_contract option =
     (case option of
        PDict c \<Rightarrow>
          (case map_of c ''details'' of
             None \<Rightarrow> True
           | Some (PDict d) \<Rightarrow>
               (case map_of d ''contract_type'' of None \<Rightarrow> True | Some t \<Rightarrow> is_str t)
           | Some _ \<Rightarrow> False)
          \<and> (case map_of c ''greeks'' of None \<Rightarrow> True | Some g \<Rightarrow> is_dict g)
          \<and> (case map_of c ''last_quote'' of None \<Rightarrow> True | Some q \<Rightarrow> is_dict q \<or> \<not> truthy q)
          \<and> (case map_of c ''last_trade'' of None \<Rightarrow> True | Some t \<Rightarrow> is_dict t \<or> \<not> truthy t)
      | _ \<Rightarrow> False)"



text \<open>
  The block the layout of the specification (section 4.3) prescribes for a contract,
  to compare the loop body with: a field is shown as the value received, or as
  \<^verbatim>\<open>N/A\<close> when its key is not there; a sub-mapping that is not there has no key. The quote and the trade line are there when their sub-mapping is present
  and not empty.
\<close>

definition shown :: "interpreter \<Rightarrow> (string \<times> pyval) list \<Rightarrow> string \<Rightarrow> string" where
  "shown U d k = (case map_of d k of None \<Rightarrow> ''N/A'' | Some v \<Rightarrow> py_str U v)"

definition sub_mapping :: "(string \<times> pyval) list \<Rightarrow> string \<Rightarrow> (string \<times> pyval) list" where
  "sub_mapping c k = (case map_of c k of Some (PDict d) \<Rightarrow> d | _ \<Rightarrow> [])"

definition expected_block :: "interpreter \<Rightarrow> (string \<times> pyval) list \<Rightarrow> string list" where
  "expected_block U c =
     [''Contract: '' @ shown U (sub_mapping c ''details'') ''ticker'',
      ''  Type: '' @ upper U (shown U (sub_mapping c ''details'') ''contract_type''),
      ''  Strike: $'' @ shown U (sub_mapping c ''details'') ''strike_price'',
      ''  Expiration: '' @ shown U (sub_mapping c ''details'') ''expiration_date'',
      ''  Exercise Style: '' @ shown U (sub_mapping c ''details'') ''exercise_style'',
      ''  Greeks:'',
      ''    Delta: '' @ shown U (sub_mapping c ''greeks'') ''delta'',
      ''    Gamma: '' @ shown U (sub_mapping c ''greeks'') ''gamma'',
      ''    Theta: '' @ shown U (sub_mapping c ''greeks'') ''theta'',
      ''    Vega:  '' @ shown U (sub_mapping c ''greeks'') ''vega'',
      ''  Implied Volatility: '' @ shown U c ''implied_volatility'',
      ''  Open Interest: '' @ shown U c ''open_interest'']
     @ (if sub_mapping c ''last_quote'' \<noteq> [] then
          [''  Last Quote: Bid $'' @ shown U (sub_mapping c ''last_quote'') ''bid''
             @ '' / Ask $'' @ shown U (sub_mapping c ''last_quote'') ''ask'']
        else [])
     @ (if sub_mapping c ''last_trade'' \<noteq> [] then
          [''  Last Trade: $'' @ shown U (sub_mapping c ''last_trade'') ''price''
             @ '' ('' @ shown U (sub_mapping c ''last_trade'') ''size'' @ '' contracts)'']
        else [])
     @ [[]]"





section \<open>Properties of the snapshot client\<close>

subsection \<open>Dictionary updates\<close>

lemma map_of_dict_set:
  "map_of (dict_set k v d) k' = (if k' = k then Some v else map_of d k')"
  by (induction d) auto

lemma keys_dict_set: "fst ` set (dict_set k v d) = insert k (fst ` set d)"
proof (induction d)
  case Nil
  then show ?case by simp
next
  case (Cons a d)
  obtain k' v' where a: "a = (k', v')" by (cases a)
  show ?case
  proof (cases "k' = k")
    case True
    with a show ?thesis by auto
  next
    case False
    with a Cons show ?thesis by auto
  qed
qed

lemma distinct_dict_set:
  "distinct (map fst d) \<Longrightarrow> distinct (map fst (dict_set k v d))"
proof (induction d)
  case Nil
  then show ?case by simp
next
  case (Cons a d)
  have "fst ` set (dict_set k v d) = insert k (fst ` set d)"
    by (rule keys_dict_set)
  with Cons show ?case by (cases a) auto
qed

lemma map_of_dict_update:
  "distinct (map fst other) \<Longrightarrow>
   map_of (dict_update d other) k =
     (case map_of other k of None \<Rightarrow> map_of d k | Some v \<Rightarrow> Some v)"
proof (induction other arbitrary: d)
  case Nil
  then show ?case by simp
next
  case (Cons a other)
  obtain k' v' where a: "a = (k', v')" by (cases a)
  from Cons.prems a have notin: "k' \<notin> fst ` set other" and dist: "distinct (map fst other)"
    by auto
  from notin have none: "map_of other k' = None"
    by (simp add: map_of_eq_None_iff)
  show ?case
    using Cons.IH [OF dist, of "dict_set k' v' d"] a none
    by (auto simp: map_of_dict_set split: option.splits)
qed

lemma distinct_dict_update:
  "distinct (map fst d) \<Longrightarrow> distinct (map fst (dict_update d other))"
  by (induction d other rule: dict_update.induct) (auto simp: distinct_dict_set)

lemma fst_get_options_chain_snapshot:
  "fst (get_options_chain_snapshot cfg requests_get underlying kwargs) =
     [GET (env_str (BASE_URL cfg) @ ''/snapshot/options/'' @ underlying)
          (dict_update [(''apiKey'', env_val (API_KEY cfg))] kwargs)]"
  by (simp add: get_options_chain_snapshot_def Let_def split: sum.splits option.splits)

lemma env_str_case:
  "env_str b = (case b of None \<Rightarrow> ''None'' | Some s \<Rightarrow> s)"
  by (cases b) simp_all

text \<open>
  Claim C1, as amended. For every ticker string and every keyword dictionary, the
  client makes exactly one call, a GET of the base URL (the text \<^verbatim>\<open>None\<close> when the
  variable is not set) followed by \<^verbatim>\<open>/snapshot/options/\<close> and the ticker as given; the
  parameters have the key \<^verbatim>\<open>apiKey\<close> and every filter under its own name with its own
  value; \<^verbatim>\<open>apiKey\<close> is bound to the configured key when no filter has that name.
\<close>

theorem snapshot_request_shape:
  assumes "distinct (map fst kwargs)"
  shows "\<exists>params.
           fst (get_options_chain_snapshot cfg requests_get underlying kwargs) =
             [GET ((case BASE_URL cfg of None \<Rightarrow> ''None'' | Some b \<Rightarrow> b)
                    @ ''/snapshot/options/'' @ underlying) params]
         \<and> map_of params ''apiKey'' \<noteq> None
         \<and> (map_of kwargs ''apiKey'' = None \<longrightarrow>
              map_of params ''apiKey'' = Some (env_val (API_KEY cfg)))
         \<and> (\<forall>k v. map_of kwargs k = Some v \<longrightarrow> map_of params k = Some v)"
proof -
  let ?params = "dict_update [(''apiKey'', env_val (API_KEY cfg))] kwargs"
  have look: "map_of ?params k =
      (case map_of kwargs k of
         None \<Rightarrow> map_of [(''apiKey'', env_val (API_KEY cfg))] k
       | Some v \<Rightarrow> Some v)" for k
    using assms by (rule map_of_dict_update)
  have a: "fst (get_options_chain_snapshot cfg requests_get underlying kwargs) =
          [GET ((case BASE_URL cfg of None \<Rightarrow> ''None'' | Some b \<Rightarrow> b)
                 @ ''/snapshot/options/'' @ underlying) ?params]"
    by (simp add: fst_get_options_chain_snapshot env_str_case)
  have b: "map_of ?params ''apiKey'' \<noteq> None"
    by (simp add: look split: option.splits)
  have c: "map_of kwargs ''apiKey'' = None \<longrightarrow>
      map_of ?params ''apiKey'' = Some (env_val (API_KEY cfg))"
    by (simp add: look)
  have d: "\<forall>k v. map_of kwargs k = Some v \<longrightarrow> map_of ?params k = Some v"
    by (simp add: look)
  show ?thesis
    by (rule exI [where x = ?params]) (intro conjI a b c d)
qed

text \<open>The property at the ticker \<^verbatim>\<open>AAPL\<close> with two filters.\<close>

theorem snapshot_request_shape_witness:
  "distinct (map fst [(''limit'', PInt 10), (''contract_type'', PStr ''put'')])
   \<and> (\<exists>params.
        fst (get_options_chain_snapshot
               \<lparr>API_KEY = Some ''key'', BASE_URL = Some ''https://api.example''\<rparr>
               (\<lambda>c. Inl ''unreachable'') ''AAPL''
               [(''limit'', PInt 10), (''contract_type'', PStr ''put'')]) =
          [GET ''https://api.example/snapshot/options/AAPL'' params]
        \<and> map_of params ''apiKey'' = Some (PStr ''key'')
        \<and> map_of params ''limit'' = Some (PInt 10)
        \<and> map_of params ''contract_type'' = Some (PStr ''put''))"
  using snapshot_request_shape [of "[(''limit'', PInt 10), (''contract_type'', PStr ''put'')]"
      "\<lparr>API_KEY = Some ''key'', BASE_URL = Some ''https://api.example''\<rparr>"
      "\<lambda>c. Inl ''unreachable''" "''AAPL''"]
  by auto

text \<open>
  Claim C1 as first stated binds \<^verbatim>\<open>apiKey\<close> to the configured key for every filter
  mapping. With a filter named \<^verbatim>\<open>apiKey\<close> the only binding sent is the filter's.
\<close>

theorem api_key_overridden_counterexample:
  "fst (get_options_chain_snapshot
          \<lparr>API_KEY = Some ''key'', BASE_URL = Some ''https://api.example''\<rparr>
          (\<lambda>c. Inl ''unreachable'') ''AAPL'' [(''apiKey'', PStr ''other'')]) =
     [GET ''https://api.example/snapshot/options/AAPL'' [(''apiKey'', PStr ''other'')]]"
  by (simp add: get_options_chain_snapshot_def)

text \<open>
  Claim C8. When the caller gives a filter named \<^verbatim>\<open>apiKey\<close>, the parameters of the call
  bind \<^verbatim>\<open>apiKey\<close> to the filter's value and to nothing else: the update comes after the
  configured key is stored, and replaces it.
\<close>

theorem filter_named_apiKey_wins:
  assumes "distinct (map fst kwargs)" and "map_of kwargs ''apiKey'' = Some v"
  shows "\<exists>u params.
           fst (get_options_chain_snapshot cfg requests_get underlying kwargs) = [GET u params]
         \<and> map_of params ''apiKey'' = Some v
         \<and> (\<forall>w. (''apiKey'', w) \<in> set params \<longrightarrow> w = v)"
proof -
  let ?params = "dict_update [(''apiKey'', env_val (API_KEY cfg))] kwargs"
  have look: "map_of ?params ''apiKey'' = Some v"
    using assms by (simp add: map_of_dict_update)
  have dist: "distinct (map fst ?params)"
    by (rule distinct_dict_update) simp
  have only: "\<forall>w. (''apiKey'', w) \<in> set ?params \<longrightarrow> w = v"
  proof (intro allI impI)
    fix w
    assume "(''apiKey'', w) \<in> set ?params"
    with dist have "map_of ?params ''apiKey'' = Some w"
      by (rule map_of_is_SomeI)
    with look show "w = v" by simp
  qed
  have call: "fst (get_options_chain_snapshot cfg requests_get underlying kwargs) =
      [GET (env_str (BASE_URL cfg) @ ''/snapshot/options/'' @ underlying) ?params]"
    by (rule fst_get_options_chain_snapshot)
  show ?thesis
    by (intro exI conjI) (rule call, rule look, rule only)
qed

text \<open>The property with the configured key \<^verbatim>\<open>key\<close> and the filter value \<^verbatim>\<open>other\<close>.\<close>

theorem filter_named_apiKey_wins_witness:
  "distinct (map fst [(''limit'', PInt 10), (''apiKey'', PStr ''other'')])
   \<and> map_of [(''limit'', PInt 10), (''apiKey'', PStr ''other'')] ''apiKey'' = Some (PStr ''other'')
   \<and> (\<exists>u params.
        fst (get_options_chain_snapshot
               \<lparr>API_KEY = Some ''key'', BASE_URL = Some ''https://api.example''\<rparr>
               (\<lambda>c. Inl ''unreachable'') ''AAPL''
               [(''limit'', PInt 10), (''apiKey'', PStr ''other'')]) = [GET u params]
        \<and> map_of params ''apiKey'' = Some (PStr ''other'')
        \<and> (''apiKey'', PStr ''key'') \<notin> set params)"
  using filter_named_apiKey_wins [of "[(''limit'', PInt 10), (''apiKey'', PStr ''other'')]"
      "PStr ''other''"
      "\<lparr>API_KEY = Some ''key'', BASE_URL = Some ''https://api.example''\<rparr>"
      "\<lambda>c. Inl ''unreachable''" "''AAPL''"]
  by auto

text \<open>
  Claim C3. When the upstream answers with a 2xx status and a body that parses, the
  client returns the parsed document itself; a document with an empty \<^verbatim>\<open>results\<close> is
  returned like any other.
\<close>

theorem success_returns_document:
  assumes "\<And>c. requests_get c = Inr r"
    and "200 \<le> status_code r" and "status_code r < 300"
    and "json r = Inr doc"
  shows "snd (get_options_chain_snapshot cfg requests_get underlying kwargs) = Inr doc"
  using assms
  by (simp add: get_options_chain_snapshot_def raise_for_status_def)

text \<open>The property at a 200 response whose \<^verbatim>\<open>results\<close> is empty.\<close>

theorem success_returns_document_witness:
  "snd (get_options_chain_snapshot
          \<lparr>API_KEY = Some ''key'', BASE_URL = Some ''https://api.example''\<rparr>
          (\<lambda>c. Inr \<lparr>status_code = 200, reason = ''OK'', url = ''https://api.example/x'',
                     text_body = ''{..}'',
                     json = Inr (PDict [(''status'', PStr ''OK''), (''request_id'', PStr ''x''),
                                        (''results'', PList [])])\<rparr>)
          ''AAPL'' [(''limit'', PInt 10)]) =
     Inr (PDict [(''status'', PStr ''OK''), (''request_id'', PStr ''x''), (''results'', PList [])])"
  by (rule success_returns_document [where r = "\<lparr>status_code = 200, reason = ''OK'',
        url = ''https://api.example/x'', text_body = ''{..}'',
        json = Inr (PDict [(''status'', PStr ''OK''), (''request_id'', PStr ''x''),
                           (''results'', PList [])])\<rparr>"]) simp_all

subsection \<open>HTTP errors\<close>

lemma raise_for_status_error:
  assumes "400 \<le> status_code r" and "status_code r < 600"
  shows "\<exists>detail. raise_for_status r = Some (HTTPError detail r)"
  using assms by (auto simp: raise_for_status_def)

text \<open>
  Claim C2, as amended. When the upstream answers with a status from 400 to 599, the
  client raises an \<^verbatim>\<open>HTTPError\<close> that holds the response (and so its body text), and the
  driver prints, after its two banner lines, \<^verbatim>\<open>HTTP Error:\<close> with the text of the error
  and \<^verbatim>\<open>Response:\<close> with the body, and nothing else: no contract block.
\<close>

theorem http_error_reported:
  assumes "\<And>c. requests_get c = Inr r"
    and "400 \<le> status_code r" and "status_code r < 600"
  shows "\<exists>detail.
           snd (get_options_chain_snapshot cfg requests_get underlying kwargs) =
             Inl (HTTPError detail r)
         \<and> snd (main U cfg requests_get json_dumps) =
             [''Fetching options chain snapshot for AAPL...'', replicate 80 CHR ''='',
              ''HTTP Error: '' @ detail, ''Response: '' @ text_body r]
         \<and> count_lines ''Contract: '' (snd (main U cfg requests_get json_dumps)) = 0"
proof -
  from assms(2,3) obtain detail where d: "raise_for_status r = Some (HTTPError detail r)"
    using raise_for_status_error by blast
  have get: "snd (get_options_chain_snapshot cfg requests_get u kw) = Inl (HTTPError detail r)"
    for u kw
    using assms(1) d by (simp add: get_options_chain_snapshot_def)
  have out: "snd (main U cfg requests_get json_dumps) =
      [''Fetching options chain snapshot for AAPL...'', replicate 80 CHR ''='',
       ''HTTP Error: '' @ detail, ''Response: '' @ text_body r]"
    by (simp add: main_def get)
  have "\<not> starts_with ''Contract: '' (replicate 80 CHR ''='')"
    by (simp add: numeral_eq_Suc)
  then have none: "count_lines ''Contract: '' (snd (main U cfg requests_get json_dumps)) = 0"
    unfolding out count_lines_def by simp
  show ?thesis
    by (rule exI [where x = detail]) (intro conjI get out none)
qed

text \<open>The property at a 401 response with the body \<^verbatim>\<open>bad key\<close>.\<close>

theorem http_error_reported_witness:
  "(400::int) \<le> 401 \<and> (401::int) < 600
   \<and> snd (main no_tables \<lparr>API_KEY = Some ''key'', BASE_URL = Some ''https://api.example''\<rparr>
        (\<lambda>c. Inr \<lparr>status_code = 401, reason = ''Unauthorized'',
                   url = ''https://api.example/snapshot/options/AAPL?apiKey=key&limit=10'',
                   text_body = ''bad key'', json = Inl ''no document''\<rparr>)
        (\<lambda>d. ''raw'')) ! 3 = ''Response: bad key''
   \<and> count_lines ''Contract: ''
        (snd (main no_tables \<lparr>API_KEY = Some ''key'', BASE_URL = Some ''https://api.example''\<rparr>
          (\<lambda>c. Inr \<lparr>status_code = 401, reason = ''Unauthorized'',
                     url = ''https://api.example/snapshot/options/AAPL?apiKey=key&limit=10'',
                     text_body = ''bad key'', json = Inl ''no document''\<rparr>)
          (\<lambda>d. ''raw''))) = 0"
  using http_error_reported [where requests_get = "\<lambda>c. Inr \<lparr>status_code = 401,
                   reason = ''Unauthorized'',
                   url = ''https://api.example/snapshot/options/AAPL?apiKey=key&limit=10'',
                   text_body = ''bad key'', json = Inl ''no document''\<rparr>"
      and cfg = "\<lparr>API_KEY = Some ''key'', BASE_URL = Some ''https://api.example''\<rparr>"
      and underlying = "''AAPL''" and kwargs = "[]" and json_dumps = "\<lambda>d. ''raw''"
      and U = no_tables]
  by auto

text \<open>
  Claim C2 as first stated covers every status from 400 upwards. The library raises
  for 400 to 599 only: a response with status 600 is parsed and rendered like a
  success, with no \<^verbatim>\<open>HTTP Error:\<close> line and with its contract block.
\<close>

theorem status_600_counterexample:
  "snd (get_options_chain_snapshot
          \<lparr>API_KEY = Some ''key'', BASE_URL = Some ''https://api.example''\<rparr>
          (\<lambda>c. Inr \<lparr>status_code = 600, reason = ''Odd'',
                     url = ''https://api.example/snapshot/options/AAPL?apiKey=key&limit=10'',
                     text_body = ''{..}'',
                     json = Inr (PDict [(''status'', PStr ''ERROR''),
                                        (''results'', PList [PDict []])])\<rparr>)
          ''AAPL'' [(''limit'', PInt 10)])
     = Inr (PDict [(''status'', PStr ''ERROR''), (''results'', PList [PDict []])])
   \<and> count_lines ''HTTP Error:''
        (snd (main no_tables \<lparr>API_KEY = Some ''key'', BASE_URL = Some ''https://api.example''\<rparr>
          (\<lambda>c. Inr \<lparr>status_code = 600, reason = ''Odd'',
                     url = ''https://api.example/snapshot/options/AAPL?apiKey=key&limit=10'',
                     text_body = ''{..}'',
                     json = Inr (PDict [(''status'', PStr ''ERROR''),
                                        (''results'', PList [PDict []])])\<rparr>)
          (\<lambda>d. ''raw''))) = 0
   \<and> count_lines ''Contract: ''
        (snd (main no_tables \<lparr>API_KEY = Some ''key'', BASE_URL = Some ''https://api.example''\<rparr>
          (\<lambda>c. Inr \<lparr>status_code = 600, reason = ''Odd'',
                     url = ''https://api.example/snapshot/options/AAPL?apiKey=key&limit=10'',
                     text_body = ''{..}'',
                     json = Inr (PDict [(''status'', PStr ''ERROR''),
                                        (''results'', PList [PDict []])])\<rparr>)
          (\<lambda>d. ''raw''))) = 1"
  by code_simp

section \<open>Properties of the renderer\<close>

subsection \<open>One pass of the loop\<close>

lemma run_prints_map_Inr: "run_prints (map Inr ls) = (ls, None)"
  by (induction ls) simp_all


lemma run_prints_error: "Inl e \<in> set ss \<Longrightarrow> snd (run_prints ss) \<noteq> None"
  by (induction ss rule: run_prints.induct) auto

lemma print_option_dict:
  "print_option U (PDict c) =
     run_prints (option_prints U (PDict c)
       (case map_of c ''details'' of None \<Rightarrow> PDict [] | Some v \<Rightarrow> v)
       (case map_of c ''greeks'' of None \<Rightarrow> PDict [] | Some v \<Rightarrow> v)
       (case map_of c ''last_quote'' of None \<Rightarrow> PDict [] | Some v \<Rightarrow> v)
       (case map_of c ''last_trade'' of None \<Rightarrow> PDict [] | Some v \<Rightarrow> v))"
  by (simp add: print_option_def bind_out_def)

lemma print_option_not_dict:
  "\<not> is_dict x \<Longrightarrow> print_option U x = ([], Some (AttributeError (type_name x) ''get''))"
  by (cases x) (simp_all add: print_option_def bind_out_def)

lemma py_get_error: "\<not> is_dict x \<Longrightarrow> py_get x k dflt = Inl (AttributeError (type_name x) ''get'')"
  by (cases x) simp_all

lemma optional_part:
  assumes "case map_of c k of None \<Rightarrow> True | Some q \<Rightarrow> is_dict q \<or> \<not> truthy q"
  shows "(if truthy (case map_of c k of None \<Rightarrow> PDict [] | Some v \<Rightarrow> v)
          then [F (case map_of c k of None \<Rightarrow> PDict [] | Some v \<Rightarrow> v)] else []) =
         (if sub_mapping c k \<noteq> [] then [F (PDict (sub_mapping c k))] else [])"
proof (cases "map_of c k")
  case None
  then show ?thesis by (simp add: sub_mapping_def)
next
  case (Some q)
  with assms have "is_dict q \<or> \<not> truthy q" by simp
  with Some show ?thesis by (cases q) (auto simp: sub_mapping_def)
qed

lemma sub_value:
  assumes "case map_of c k of None \<Rightarrow> True | Some g \<Rightarrow> is_dict g"
  shows "(case map_of c k of None \<Rightarrow> PDict [] | Some v \<Rightarrow> v) = PDict (sub_mapping c k)"
proof (cases "map_of c k")
  case None
  then show ?thesis by (simp add: sub_mapping_def)
next
  case (Some g)
  with assms show ?thesis by (cases g) (simp_all add: sub_mapping_def)
qed

lemma ascii_sentinel: "ascii ''N/A''"
  by (simp add: ascii_def)


lemma shown_eq:
  "py_str U (case map_of m k of None \<Rightarrow> PStr ''N/A'' | Some v \<Rightarrow> v) = shown U m k"
  by (simp add: shown_def split: option.splits)

lemma option_prints_fixed:
  assumes "case map_of d ''contract_type'' of None \<Rightarrow> True | Some t \<Rightarrow> is_str t"
  shows "option_prints U (PDict c) (PDict d) (PDict g) q t =
     map Inr
       [''Contract: '' @ shown U d ''ticker'',
        ''  Type: '' @ upper U (shown U d ''contract_type''),
        ''  Strike: $'' @ shown U d ''strike_price'',
        ''  Expiration: '' @ shown U d ''expiration_date'',
        ''  Exercise Style: '' @ shown U d ''exercise_style'',
        ''  Greeks:'',
        ''    Delta: '' @ shown U g ''delta'',
        ''    Gamma: '' @ shown U g ''gamma'',
        ''    Theta: '' @ shown U g ''theta'',
        ''    Vega:  '' @ shown U g ''vega'',
        ''  Implied Volatility: '' @ shown U c ''implied_volatility'',
        ''  Open Interest: '' @ shown U c ''open_interest'']
     @ (if truthy q then
          [fstring U [Lit ''  Last Quote: Bid $'', Val (py_get q ''bid'' (PStr ''N/A'')),
                    Lit '' / Ask $'', Val (py_get q ''ask'' (PStr ''N/A''))]]
        else [])
     @ (if truthy t then
          [fstring U [Lit ''  Last Trade: $'', Val (py_get t ''price'' (PStr ''N/A'')),
                    Lit '' ('', Val (py_get t ''size'' (PStr ''N/A'')),
                    Lit '' contracts)'']]
        else [])
     @ [Inr []]"
proof -
  have ty: "py_bind (py_get (PDict d) ''contract_type'' (PStr ''N/A'')) (py_upper U) =
      Inr (PStr (upper U (shown U d ''contract_type'')))"
  proof (cases "map_of d ''contract_type''")
    case None
    then show ?thesis by (simp add: py_bind_def shown_def)
  next
    case (Some t)
    with assms have "is_str t" by simp
    with Some show ?thesis by (cases t) (simp_all add: py_bind_def shown_def)
  qed
  show ?thesis
    unfolding option_prints_def ty
    by (simp add: shown_eq)
qed

lemma well_typed_contractD:
  assumes "well_typed_contract (PDict c)"
  shows "case map_of c ''details'' of None \<Rightarrow> True | Some g \<Rightarrow> is_dict g"
    and "case map_of (sub_mapping c ''details'') ''contract_type'' of
           None \<Rightarrow> True | Some t \<Rightarrow> is_str t"
    and "case map_of c ''greeks'' of None \<Rightarrow> True | Some g \<Rightarrow> is_dict g"
    and "case map_of c ''last_quote'' of None \<Rightarrow> True | Some q \<Rightarrow> is_dict q \<or> \<not> truthy q"
    and "case map_of c ''last_trade'' of None \<Rightarrow> True | Some q \<Rightarrow> is_dict q \<or> \<not> truthy q"
  using assms
  by (auto simp: well_typed_contract_def sub_mapping_def split: option.splits pyval.splits)

lemma print_option_well_typed:
  assumes "well_typed_contract (PDict c)"
  shows "print_option U (PDict c) = (expected_block U c, None)"
proof -
  note wt = well_typed_contractD [OF assms]
  let ?Q = "case map_of c ''last_quote'' of None \<Rightarrow> PDict [] | Some v \<Rightarrow> v"
  let ?T = "case map_of c ''last_trade'' of None \<Rightarrow> PDict [] | Some v \<Rightarrow> v"
  let ?quote = "\<lambda>q. fstring U [Lit ''  Last Quote: Bid $'', Val (py_get q ''bid'' (PStr ''N/A'')),
                    Lit '' / Ask $'', Val (py_get q ''ask'' (PStr ''N/A''))]"
  let ?trade = "\<lambda>q. fstring U [Lit ''  Last Trade: $'', Val (py_get q ''price'' (PStr ''N/A'')),
                    Lit '' ('', Val (py_get q ''size'' (PStr ''N/A'')),
                    Lit '' contracts)'']"
  have quote: "?quote (PDict q) =
      Inr (''  Last Quote: Bid $'' @ shown U q ''bid'' @ '' / Ask $'' @ shown U q ''ask'')" for q
    by (simp add: shown_def split: option.splits)
  have trade: "?trade (PDict q) =
      Inr (''  Last Trade: $'' @ shown U q ''price'' @ '' ('' @ shown U q ''size''
           @ '' contracts)'')"
    for q
    by (simp add: shown_def split: option.splits)
  have q: "(if truthy ?Q then [?quote ?Q] else []) =
      (if sub_mapping c ''last_quote'' \<noteq> [] then [?quote (PDict (sub_mapping c ''last_quote''))]
       else [])"
    by (rule optional_part [OF wt(4)])
  have t: "(if truthy ?T then [?trade ?T] else []) =
      (if sub_mapping c ''last_trade'' \<noteq> [] then [?trade (PDict (sub_mapping c ''last_trade''))]
       else [])"
    by (rule optional_part [OF wt(5)])
  have "option_prints U (PDict c)
       (case map_of c ''details'' of None \<Rightarrow> PDict [] | Some v \<Rightarrow> v)
       (case map_of c ''greeks'' of None \<Rightarrow> PDict [] | Some v \<Rightarrow> v) ?Q ?T =
     map Inr (expected_block U c)"
    unfolding sub_value [OF wt(1)] sub_value [OF wt(3)] option_prints_fixed [OF wt(2)] q t
    unfolding quote trade expected_block_def
    by simp
  then show ?thesis
    by (simp add: print_option_dict run_prints_map_Inr)
qed

lemma print_option_bad_contract_type:
  assumes "map_of c ''details'' = Some (PDict d)"
    and "map_of d ''contract_type'' = Some t" and "\<not> is_str t"
  shows "print_option U (PDict c) =
     ([''Contract: '' @ shown U d ''ticker''], Some (AttributeError (type_name t) ''upper''))"
proof -
  have "py_bind (py_get (PDict d) ''contract_type'' (PStr ''N/A'')) (py_upper U) =
      Inl (AttributeError (type_name t) ''upper'')"
    using assms(2,3) by (cases t) (simp_all add: py_bind_def)
  then show ?thesis
    using assms(1)
    by (simp add: print_option_dict option_prints_def shown_def split: option.splits)
qed

subsection \<open>The texts of the statements\<close>







lemma one_line_append [simp]: "one_line (a @ b) \<longleftrightarrow> one_line a \<and> one_line b"
  by (auto simp: one_line_def)

lemma one_line_Nil [simp]: "one_line []"
  by (simp add: one_line_def)

lemma one_line_Cons [simp]: "one_line (c # cs) \<longleftrightarrow> c \<noteq> CHR 0x0A \<and> one_line cs"
  by (auto simp: one_line_def)





subsection \<open>The whole rendering\<close>

lemma seq_out_None [simp]: "seq_out (a, None) b = (a @ fst b, snd b)"
  by (simp add: seq_out_def)

lemma seq_out_Some [simp]: "seq_out (a, Some e) b = (a, Some e)"
  by (simp add: seq_out_def)


lemma well_typed_contract_dict:
  "well_typed_contract x \<Longrightarrow> \<exists>c. x = PDict c"
  by (cases x) (simp_all add: well_typed_contract_def)

text \<open>
  The well typed contracts are exactly the ones whose block is printed without an
  exception.
\<close>

lemma print_option_complete_iff:
  "snd (print_option U x) = None \<longleftrightarrow> well_typed_contract x"
proof
  assume "well_typed_contract x"
  then show "snd (print_option U x) = None"
    using well_typed_contract_dict print_option_well_typed by fastforce
next
  assume ok: "snd (print_option U x) = None"
  then obtain c where x: "x = PDict c"
    by (cases x) (simp_all add: print_option_not_dict)
  let ?D = "case map_of c ''details'' of None \<Rightarrow> PDict [] | Some v \<Rightarrow> v"
  let ?G = "case map_of c ''greeks'' of None \<Rightarrow> PDict [] | Some v \<Rightarrow> v"
  let ?Q = "case map_of c ''last_quote'' of None \<Rightarrow> PDict [] | Some v \<Rightarrow> v"
  let ?T = "case map_of c ''last_trade'' of None \<Rightarrow> PDict [] | Some v \<Rightarrow> v"
  have no: "Inl e \<notin> set (option_prints U (PDict c) ?D ?G ?Q ?T)" for e
  proof
    assume "Inl e \<in> set (option_prints U (PDict c) ?D ?G ?Q ?T)"
    then have "snd (run_prints (option_prints U (PDict c) ?D ?G ?Q ?T)) \<noteq> None"
      by (rule run_prints_error)
    with ok x show False by (simp add: print_option_dict)
  qed
  have D: "is_dict ?D"
  proof (rule ccontr)
    assume "\<not> is_dict ?D"
    then have "Inl (AttributeError (type_name ?D) ''get'')
        \<in> set (option_prints U (PDict c) ?D ?G ?Q ?T)"
      by (simp add: option_prints_def py_get_error)
    with no show False by blast
  qed
  have G: "is_dict ?G"
  proof (rule ccontr)
    assume "\<not> is_dict ?G"
    then have "Inl (AttributeError (type_name ?G) ''get'')
        \<in> set (option_prints U (PDict c) ?D ?G ?Q ?T)"
      by (simp add: option_prints_def py_get_error)
    with no show False by blast
  qed
  have Q: "is_dict ?Q \<or> \<not> truthy ?Q"
  proof (rule ccontr)
    assume "\<not> (is_dict ?Q \<or> \<not> truthy ?Q)"
    then have "Inl (AttributeError (type_name ?Q) ''get'')
        \<in> set (option_prints U (PDict c) ?D ?G ?Q ?T)"
      by (simp add: option_prints_def py_get_error)
    with no show False by blast
  qed
  have T: "is_dict ?T \<or> \<not> truthy ?T"
  proof (rule ccontr)
    assume "\<not> (is_dict ?T \<or> \<not> truthy ?T)"
    then have "Inl (AttributeError (type_name ?T) ''get'')
        \<in> set (option_prints U (PDict c) ?D ?G ?Q ?T)"
      by (simp add: option_prints_def py_get_error)
    with no show False by blast
  qed
  have ty: "is_str t" if d: "map_of c ''details'' = Some (PDict d)"
    and t: "map_of d ''contract_type'' = Some t" for d t
  proof (rule ccontr)
    assume "\<not> is_str t"
    with d t have "snd (print_option U (PDict c)) \<noteq> None"
      by (simp add: print_option_bad_contract_type)
    with ok x show False by simp
  qed
  from D G Q T ty show "well_typed_contract x"
    unfolding x well_typed_contract_def
    by (auto split: option.splits pyval.splits)
qed







subsection \<open>Lines\<close>

lemma split_lines_nonempty [simp]: "split_lines s \<noteq> []"
  by (cases s) (simp_all split: list.splits)













subsection \<open>Counting\<close>







subsection \<open>The fields of a block\<close>





subsection \<open>The header and the number of blocks\<close>





subsection \<open>The quote and the trade line\<close>





subsection \<open>The header of a response without status\<close>



subsection \<open>A contract type that is not a string\<close>



subsection \<open>The renderer in the process\<close>

lemma stdout_text_Nil [simp]: "stdout_text [] = []"
  by (simp add: stdout_text_def)








subsection \<open>Determinism\<close>



end
